theory Spec2Isabelle
  imports Main "HOL-Library.Word"
begin

unbundle bit_operations_syntax

section \<open>The matrix-index macros of \<^verbatim>\<open>matrix_transform.h\<close>\<close>

text \<open>
  The header defines five function-like macros. A macro has no parameter types: it
  works on whatever integer type its arguments have where it is expanded. The model keeps
  that: every macro is a function on any type with bit operations, so that it can be
  read on machine words of a fixed width (\<open>'a word\<close>, with \<open>unat\<close> giving the
  non-negative integer a word holds) and on the natural numbers alike. On a word of
  \<open>w\<close> bits the left shift by 8 drops the top eight bits of its operand; the right
  shift and the mask with \<^verbatim>\<open>0xFF\<close> lose nothing. Facts that depend on the left shift
  of an arbitrary row are therefore stated on words, with the bound \<open>row < 2 ^ (w - 8)\<close>
  under which nothing is dropped. In C the operator \<^verbatim>\<open><<\<close> binds tighter than
  \<^verbatim>\<open>|\<close>, so the body of \<^verbatim>\<open>RC\<close> is the shifted row or-ed with the column.
\<close>

definition RC :: "'a::semiring_bit_operations \<Rightarrow> 'a \<Rightarrow> 'a" where
  "RC row col = push_bit 8 row OR col"

definition MATRIX_ROW :: "'a::semiring_bit_operations \<Rightarrow> 'a" where
  "MATRIX_ROW row = push_bit 8 row"


definition GET_ROW :: "'a::semiring_bit_operations \<Rightarrow> 'a" where
  "GET_ROW matrix_index = drop_bit 8 matrix_index"

definition GET_COL :: "'a::semiring_bit_operations \<Rightarrow> 'a" where
  "GET_COL matrix_index = matrix_index AND 0xFF"

subsection \<open>The codec as the specification words it\<close>

text \<open>
  The specification names three operations on non-negative integers and gives each a
  result expression: \<^verbatim>\<open>(row << 8) | column\<close>, \<^verbatim>\<open>packed >> 8\<close> and
  \<^verbatim>\<open>packed & 0xFF\<close>. They are written down here from those words, to be compared
  with the macros.
\<close>

definition encode :: "nat \<Rightarrow> nat \<Rightarrow> nat" where
  "encode row column = (push_bit 8 row) OR column"

definition decode_row :: "nat \<Rightarrow> nat" where
  "decode_row packed = drop_bit 8 packed"

definition decode_column :: "nat \<Rightarrow> nat" where
  "decode_column packed = packed AND 0xFF"

section \<open>The key codes of \<^verbatim>\<open>keys.h\<close>\<close>

text \<open>Letter keys\<close>

definition KC_A :: nat where
  "KC_A = 0x04"
definition KC_B :: nat where
  "KC_B = 0x05"
definition KC_C :: nat where
  "KC_C = 0x06"
definition KC_D :: nat where
  "KC_D = 0x07"
definition KC_E :: nat where
  "KC_E = 0x08"
definition KC_F :: nat where
  "KC_F = 0x09"
definition KC_G :: nat where
  "KC_G = 0x0A"
definition KC_H :: nat where
  "KC_H = 0x0B"
definition KC_I :: nat where
  "KC_I = 0x0C"
definition KC_J :: nat where
  "KC_J = 0x0D"
definition KC_K :: nat where
  "KC_K = 0x0E"
definition KC_L :: nat where
  "KC_L = 0x0F"
definition KC_M :: nat where
  "KC_M = 0x10"
definition KC_N :: nat where
  "KC_N = 0x11"
definition KC_O :: nat where
  "KC_O = 0x12"
definition KC_P :: nat where
  "KC_P = 0x13"
definition KC_Q :: nat where
  "KC_Q = 0x14"
definition KC_R :: nat where
  "KC_R = 0x15"
definition KC_S :: nat where
  "KC_S = 0x16"
definition KC_T :: nat where
  "KC_T = 0x17"
definition KC_U :: nat where
  "KC_U = 0x18"
definition KC_V :: nat where
  "KC_V = 0x19"
definition KC_W :: nat where
  "KC_W = 0x1A"
definition KC_X :: nat where
  "KC_X = 0x1B"
definition KC_Y :: nat where
  "KC_Y = 0x1C"
definition KC_Z :: nat where
  "KC_Z = 0x1D"

text \<open>Modifiers\<close>

definition KC_LCTRL :: nat where
  "KC_LCTRL = 0xE0"
definition KC_LSHIFT :: nat where
  "KC_LSHIFT = 0xE1"
definition KC_LALT :: nat where
  "KC_LALT = 0xE2"
definition KC_LGUI :: nat where
  "KC_LGUI = 0xE3"
definition KC_RCTRL :: nat where
  "KC_RCTRL = 0xE4"
definition KC_RSHIFT :: nat where
  "KC_RSHIFT = 0xE5"
definition KC_RALT :: nat where
  "KC_RALT = 0xE6"
definition KC_RGUI :: nat where
  "KC_RGUI = 0xE7"

text \<open>Function keys\<close>

definition KC_F1 :: nat where
  "KC_F1 = 0x3A"
definition KC_F2 :: nat where
  "KC_F2 = 0x3B"
definition KC_F3 :: nat where
  "KC_F3 = 0x3C"
definition KC_F4 :: nat where
  "KC_F4 = 0x3D"
definition KC_F5 :: nat where
  "KC_F5 = 0x3E"
definition KC_F6 :: nat where
  "KC_F6 = 0x3F"
definition KC_F7 :: nat where
  "KC_F7 = 0x40"
definition KC_F8 :: nat where
  "KC_F8 = 0x41"
definition KC_F9 :: nat where
  "KC_F9 = 0x42"
definition KC_F10 :: nat where
  "KC_F10 = 0x43"
definition KC_F11 :: nat where
  "KC_F11 = 0x44"
definition KC_F12 :: nat where
  "KC_F12 = 0x45"

text \<open>Other keys\<close>

definition KC_ENTER :: nat where
  "KC_ENTER = 0x28"
definition KC_ESC :: nat where
  "KC_ESC = 0x29"
definition KC_BSPC :: nat where
  "KC_BSPC = 0x2A"
definition KC_TAB :: nat where
  "KC_TAB = 0x2B"
definition KC_SPC :: nat where
  "KC_SPC = 0x2C"
definition KC_MINUS :: nat where
  "KC_MINUS = 0x2D"
definition KC_EQUAL :: nat where
  "KC_EQUAL = 0x2E"
definition KC_LBKT :: nat where
  "KC_LBKT = 0x2F"
definition KC_RBKT :: nat where
  "KC_RBKT = 0x30"
definition KC_BSLASH :: nat where
  "KC_BSLASH = 0x31"
definition KC_SEMI :: nat where
  "KC_SEMI = 0x33"
definition KC_QUOTE :: nat where
  "KC_QUOTE = 0x34"
definition KC_GRAVE :: nat where
  "KC_GRAVE = 0x35"
definition KC_COMMA :: nat where
  "KC_COMMA = 0x36"
definition KC_DOT :: nat where
  "KC_DOT = 0x37"
definition KC_SLASH :: nat where
  "KC_SLASH = 0x38"
definition KC_CAPS :: nat where
  "KC_CAPS = 0x39"

text \<open>Number row\<close>

definition KC_1 :: nat where
  "KC_1 = 0x1E"
definition KC_2 :: nat where
  "KC_2 = 0x1F"
definition KC_3 :: nat where
  "KC_3 = 0x20"
definition KC_4 :: nat where
  "KC_4 = 0x21"
definition KC_5 :: nat where
  "KC_5 = 0x22"
definition KC_6 :: nat where
  "KC_6 = 0x23"
definition KC_7 :: nat where
  "KC_7 = 0x24"
definition KC_8 :: nat where
  "KC_8 = 0x25"
definition KC_9 :: nat where
  "KC_9 = 0x26"
definition KC_0 :: nat where
  "KC_0 = 0x27"

text \<open>Navigation cluster\<close>

definition KC_INSERT :: nat where
  "KC_INSERT = 0x49"
definition KC_HOME :: nat where
  "KC_HOME = 0x4A"
definition KC_PGUP :: nat where
  "KC_PGUP = 0x4B"
definition KC_DELETE :: nat where
  "KC_DELETE = 0x4C"
definition KC_END :: nat where
  "KC_END = 0x4D"
definition KC_PGDN :: nat where
  "KC_PGDN = 0x4E"
definition KC_RIGHT :: nat where
  "KC_RIGHT = 0x4F"
definition KC_LEFT :: nat where
  "KC_LEFT = 0x50"
definition KC_DOWN :: nat where
  "KC_DOWN = 0x51"
definition KC_UP :: nat where
  "KC_UP = 0x52"

text \<open>The eight modifier codes, in the order of the header.\<close>

definition modifier_codes :: "nat list" where
  "modifier_codes =
    [KC_LCTRL, KC_LSHIFT, KC_LALT, KC_LGUI, KC_RCTRL, KC_RSHIFT, KC_RALT, KC_RGUI]"

section \<open>The mouse codes of \<^verbatim>\<open>mouse.h\<close>\<close>

definition LCLK :: nat where
  "LCLK = 0x01"
definition RCLK :: nat where
  "RCLK = 0x02"
definition MCLK :: nat where
  "MCLK = 0x03"
definition MOVE_UP :: nat where
  "MOVE_UP = 0x04"
definition MOVE_DOWN :: nat where
  "MOVE_DOWN = 0x05"
definition MOVE_LEFT :: nat where
  "MOVE_LEFT = 0x06"
definition MOVE_RIGHT :: nat where
  "MOVE_RIGHT = 0x07"
definition SCROLL_UP :: nat where
  "SCROLL_UP = 0x08"
definition SCROLL_DOWN :: nat where
  "SCROLL_DOWN = 0x09"
definition SCROLL_LEFT :: nat where
  "SCROLL_LEFT = 0x0A"
definition SCROLL_RIGHT :: nat where
  "SCROLL_RIGHT = 0x0B"

text \<open>All mouse codes, in the order of the header.\<close>

definition mouse_codes :: "nat list" where
  "mouse_codes =
    [LCLK, RCLK, MCLK, MOVE_UP, MOVE_DOWN, MOVE_LEFT, MOVE_RIGHT,
     SCROLL_UP, SCROLL_DOWN, SCROLL_LEFT, SCROLL_RIGHT]"

section \<open>The behavior constants of \<^verbatim>\<open>behaviors.h\<close>\<close>

text \<open>
  The header names its basic behaviors \<^verbatim>\<open>&kp\<close>, \<^verbatim>\<open>&mt\<close> and so on; the
  ampersand is written \<open>amp_\<close> here.
\<close>

text \<open>Basic behaviors\<close>

definition amp_kp :: nat where
  "amp_kp = 0x01"
definition amp_mt :: nat where
  "amp_mt = 0x02"
definition amp_lt :: nat where
  "amp_lt = 0x03"
definition amp_mo :: nat where
  "amp_mo = 0x04"
definition amp_to :: nat where
  "amp_to = 0x05"
definition amp_tog :: nat where
  "amp_tog = 0x06"
definition amp_sk :: nat where
  "amp_sk = 0x07"
definition amp_trans :: nat where
  "amp_trans = 0x08"
definition amp_macro :: nat where
  "amp_macro = 0x09"

text \<open>Hold-tap configuration\<close>

definition HOLD_TAP_FLAVOR_HOLD_PREFERRED :: nat where
  "HOLD_TAP_FLAVOR_HOLD_PREFERRED = 0"
definition HOLD_TAP_FLAVOR_BALANCED :: nat where
  "HOLD_TAP_FLAVOR_BALANCED = 1"
definition HOLD_TAP_FLAVOR_TAP_PREFERRED :: nat where
  "HOLD_TAP_FLAVOR_TAP_PREFERRED = 2"
definition HOLD_TAP_FLAVOR_TAP_UNLESS_INTERRUPTED :: nat where
  "HOLD_TAP_FLAVOR_TAP_UNLESS_INTERRUPTED = 3"

text \<open>Timing parameters\<close>

definition TAPPING_TERM_MS :: nat where
  "TAPPING_TERM_MS = 200"
definition QUICK_TAP_MS :: nat where
  "QUICK_TAP_MS = 125"
definition GLOBAL_QUICK_TAP_MS :: nat where
  "GLOBAL_QUICK_TAP_MS = 150"

text \<open>Layer behavior parameters\<close>

definition DEFAULT_LAYER :: nat where
  "DEFAULT_LAYER = 0"
definition MOMENTARY_LAYER :: nat where
  "MOMENTARY_LAYER = 1"
definition TOGGLE_LAYER :: nat where
  "TOGGLE_LAYER = 2"

text \<open>The four hold-tap flavors and the three layer behavior types, in the order of the header.\<close>

definition hold_tap_flavors :: "nat list" where
  "hold_tap_flavors =
    [HOLD_TAP_FLAVOR_HOLD_PREFERRED, HOLD_TAP_FLAVOR_BALANCED,
     HOLD_TAP_FLAVOR_TAP_PREFERRED, HOLD_TAP_FLAVOR_TAP_UNLESS_INTERRUPTED]"

definition layer_behavior_types :: "nat list" where
  "layer_behavior_types = [DEFAULT_LAYER, MOMENTARY_LAYER, TOGGLE_LAYER]"

section \<open>Bit-level facts about the macros\<close>

lemma mask_0xFF: "(0xFF :: 'a::semiring_bit_operations) = mask 8"
  by (simp add: mask_numeral)

lemma GET_COL_take_bit: "GET_COL p = take_bit 8 (p :: 'a::semiring_bit_operations)"
  by (simp only: GET_COL_def mask_0xFF take_bit_eq_mask)

lemma GET_ROW_RC: "GET_ROW (RC row col) = row OR drop_bit 8 (col :: nat)"
  by (simp add: RC_def GET_ROW_def drop_bit_or drop_bit_push_bit)

lemma GET_COL_RC: "GET_COL (RC row col) = take_bit 8 (col :: 'a::semiring_bit_operations)"
  by (simp add: GET_COL_take_bit RC_def take_bit_or take_bit_push_bit)

lemma drop_bit_8_small: "col < 256 \<Longrightarrow> drop_bit 8 (col :: nat) = 0"
  by (simp add: drop_bit_eq_div)

lemma take_bit_8_small: "col < 256 \<Longrightarrow> take_bit 8 (col :: nat) = col"
  by (simp add: take_bit_eq_mod)

lemma GET_ROW_RC_small: "col < 256 \<Longrightarrow> GET_ROW (RC row col) = (row :: nat)"
  by (simp add: GET_ROW_RC drop_bit_8_small)

lemma RC_plus: "col < 256 \<Longrightarrow> RC row col = row * 256 + (col :: nat)"
proof -
  assume small: "col < 256"
  have "push_bit 8 row AND take_bit 8 col = 0"
    by (simp add: bit_eq_iff bit_simps)
  then have "push_bit 8 row AND col = 0"
    using small by (simp add: take_bit_8_small)
  then have "push_bit 8 row + col = push_bit 8 row OR col"
    by (rule disjunctive_add_eq_or)
  then show ?thesis
    by (simp add: RC_def push_bit_eq_mult)
qed

subsection \<open>On words of a fixed width\<close>

lemma take_bit_word_fits:
  fixes w :: "'a::len word"
  assumes "unat w < 2 ^ n"
  shows "take_bit n w = w"
proof -
  have "unat (take_bit n w) = unat w"
    using assms by (simp add: unsigned_take_bit_eq take_bit_nat_eq_self)
  then show ?thesis
    by (rule unsigned_word_eqI)
qed


text \<open>Shifting a word left by 8 and back keeps all but its top eight bits.\<close>

lemma GET_ROW_MATRIX_ROW_word:
  "GET_ROW (MATRIX_ROW row) = take_bit (LENGTH('a) - 8) (row :: 'a::len word)"
  unfolding GET_ROW_def MATRIX_ROW_def
  by (rule bit_word_eqI) (auto simp add: bit_simps)

text \<open>
  The value of \<open>RC\<close> on words of any width, in terms of the integers the words hold:
  the row enters without its top eight bits.
\<close>

lemma unat_RC:
  fixes row col :: "'a::len word"
  shows "unat (RC row col) = encode (take_bit (LENGTH('a) - 8) (unat row)) (unat col)"
  by (simp add: RC_def encode_def unsigned_or_eq unsigned_push_bit_eq take_bit_push_bit)

section \<open>Round trip\<close>

text \<open>
  Claim C1. For every row in [0,255] and every column in [0,255], decoding the packed
  value gives back the pair: \<open>GET_ROW\<close> of \<open>RC row col\<close> is the row and \<open>GET_COL\<close> of
  it is the column.
\<close>

theorem RC_round_trip:
  fixes row col :: nat
  assumes "row \<le> 255" and "col \<le> 255"
  shows "GET_ROW (RC row col) = row \<and> GET_COL (RC row col) = col"
  using assms by (simp add: GET_ROW_RC_small GET_COL_RC take_bit_8_small)

theorem RC_round_trip_witness:
  "(255 :: nat) \<le> 255 \<and> (17 :: nat) \<le> 255 \<and>
   GET_ROW (RC (255 :: nat) 17) = 255 \<and> GET_COL (RC (255 :: nat) 17) = 17"
  using RC_round_trip [of 255 17] by simp

section \<open>The macros against the specification's expressions\<close>

text \<open>
  Claim C2, as the specification states it: for every non-negative integer row and
  column, \<open>RC row col\<close> is the integer \<open>(row << 8) | column\<close>. Expanded on 32-bit unsigned
  values this fails for a row of \<open>2 ^ 24\<close>: the shift drops the row's only set bit, and
  \<open>RC 16777216 7\<close> is 7, where the integer expression gives 4294967303.
\<close>

theorem RC_is_not_encode_at_32_bits:
  "unat (RC (16777216 :: 32 word) 7) \<noteq> encode 16777216 7"
  by (simp add: RC_def encode_def)

text \<open>
  Claim C2, amended: for every row and column held in unsigned operands of \<open>w\<close> bits with
  \<open>row < 2 ^ (w - 8)\<close>, \<open>RC row col\<close> is exactly the integer \<open>(row << 8) | column\<close>.
  Nothing masks the column: the quotient of the result by 256 is the row or-ed with the
  column's bits from position 8 on, its remainder is the column's low byte, and every bit
  set in the column is set in the result.
\<close>

theorem RC_is_encode_in_range:
  fixes row col :: "'a::len word"
  assumes "unat row < 2 ^ (LENGTH('a) - 8)"
  shows "unat (RC row col) = encode (unat row) (unat col) \<and>
         unat (RC row col) div 256 = unat row OR unat col div 256 \<and>
         unat (RC row col) mod 256 = unat col mod 256 \<and>
         RC row col AND col = col"
proof -
  have value_eq: "unat (RC row col) = encode (unat row) (unat col)"
    using assms by (simp add: unat_RC take_bit_nat_eq_self)
  have "encode (unat row) (unat col) div 256 = unat row OR unat col div 256"
    by (simp add: encode_def drop_bit_or drop_bit_push_bit
        flip: drop_bit_eq_div [of 8, simplified])
  moreover have "encode (unat row) (unat col) mod 256 = unat col mod 256"
    by (simp add: encode_def take_bit_or take_bit_push_bit
        flip: take_bit_eq_mod [of 8, simplified])
  moreover have "RC row col AND col = col"
    by (auto simp add: RC_def bit_eq_iff bit_simps)
  ultimately show ?thesis
    using value_eq by simp
qed

theorem RC_is_encode_in_range_witness:
  "unat (2 :: 32 word) < 2 ^ (LENGTH(32) - 8) \<and>
   unat (RC (2 :: 32 word) 300) = encode (unat (2 :: 32 word)) (unat (300 :: 32 word)) \<and>
   unat (RC (2 :: 32 word) 300) div 256 = unat (2 :: 32 word) OR unat (300 :: 32 word) div 256 \<and>
   unat (RC (2 :: 32 word) 300) mod 256 = unat (300 :: 32 word) mod 256 \<and>
   RC (2 :: 32 word) 300 AND 300 = 300"
proof -
  have fits: "unat (2 :: 32 word) < 2 ^ (LENGTH(32) - 8)"
    by simp
  show ?thesis
    using fits RC_is_encode_in_range [OF fits, of 300] by (simp add: encode_def)
qed

text \<open>
  Claim C3. For every non-negative integer, \<open>GET_ROW\<close> gives \<open>packed >> 8\<close> and
  \<open>GET_COL\<close> gives \<open>packed & 0xFF\<close>, the expressions of the specification; in
  arithmetic these are the quotient and the remainder of the division by 256.
\<close>

theorem GET_ROW_GET_COL_are_decode:
  "GET_ROW packed = decode_row packed \<and> GET_COL packed = decode_column packed \<and>
   decode_row packed = packed div 256 \<and> decode_column packed = packed mod 256"
proof -
  have "decode_column packed = GET_COL packed"
    by (simp add: decode_column_def GET_COL_def)
  then show ?thesis
    by (simp add: GET_ROW_def decode_row_def drop_bit_eq_div GET_COL_take_bit take_bit_eq_mod)
qed

section \<open>Columns above 255\<close>

text \<open>
  Claim C4. The three macros have no error case: each is a plain function from
  non-negative integers to a non-negative integer. A column above 255 is not refused; its
  bits from position 8 on are or-ed into the row, so for some row and some column above
  255 the decoded row differs from the row that was packed (row 0 with column 256 decodes
  to row 1, on the integers and on 32-bit values alike). On operands of \<open>w\<close> bits, for
  every row below \<open>2 ^ (w - 8)\<close> the decoded row is the row or-ed with the column shifted
  right by 8, and for all inputs the decoded column is the column modulo 256.
\<close>

theorem RC_large_column_overwrites_row:
  fixes r c :: "'a::len word"
  shows "(\<exists>row col :: nat. 255 < col \<and> GET_ROW (RC row col) \<noteq> row) \<and>
   GET_ROW (RC (0 :: nat) 256) = 1 \<and>
   GET_ROW (RC (0 :: 32 word) 256) = 1 \<and>
   (unat r < 2 ^ (LENGTH('a) - 8) \<longrightarrow> GET_ROW (RC r c) = r OR drop_bit 8 c) \<and>
   unat (GET_COL (RC r c)) = unat c mod 256"
proof -
  have ex: "(255 :: nat) < 256 \<and> GET_ROW (RC (0 :: nat) 256) \<noteq> 0"
    by (simp add: RC_def GET_ROW_def)
  have "\<exists>row col :: nat. 255 < col \<and> GET_ROW (RC row col) \<noteq> row"
    using ex by blast
  moreover have "GET_ROW (RC (0 :: nat) 256) = 1"
    by (simp add: RC_def GET_ROW_def)
  moreover have "GET_ROW (RC (0 :: 32 word) 256) = 1"
    by (simp add: RC_def GET_ROW_def)
  moreover have "unat (GET_COL (RC r c)) = unat c mod 256"
  proof -
    have "unat (GET_COL (RC r c)) = take_bit 8 (unat c)"
      by (simp only: GET_COL_RC unsigned_take_bit_eq)
    then show ?thesis
      by (simp add: take_bit_eq_mod)
  qed
  moreover have "GET_ROW (RC r c) = r OR drop_bit 8 c" if "unat r < 2 ^ (LENGTH('a) - 8)"
  proof -
    have "GET_ROW (RC r c) = GET_ROW (MATRIX_ROW r) OR drop_bit 8 c"
      by (simp add: RC_def GET_ROW_def MATRIX_ROW_def drop_bit_or)
    then show ?thesis
      using that by (simp add: GET_ROW_MATRIX_ROW_word take_bit_word_fits)
  qed
  ultimately show ?thesis
    by simp
qed

theorem RC_large_column_overwrites_row_witness:
  "unat (2 :: 32 word) < 2 ^ (LENGTH(32) - 8) \<and> (255 :: 32 word) < 256 \<and>
   GET_ROW (RC (2 :: 32 word) 256) = 3 \<and> unat (GET_COL (RC (2 :: 32 word) 256)) = 0"
  using RC_large_column_overwrites_row [of "2 :: 32 word" "256 :: 32 word"] by simp

section \<open>Constant tables\<close>

lemma KC_LCTRL_value: "KC_LCTRL = 224"
  by (simp add: KC_LCTRL_def)

text \<open>
  Claim C5, as the specification states it: the left-shift modifier constant
  \<open>KC_LSHIFT\<close> equals 224. The header defines it as \<^verbatim>\<open>0xE1\<close>, so this fails.
\<close>

theorem KC_LSHIFT_not_224: "KC_LSHIFT \<noteq> 224"
  by (simp add: KC_LSHIFT_def)

text \<open>
  Claim C5, amended: the left-shift modifier constant \<open>KC_LSHIFT\<close> equals 225 decimal
  (\<^verbatim>\<open>0xE1\<close>). The constant that equals 224 is \<open>KC_LCTRL\<close>.
\<close>

theorem KC_LSHIFT_value: "KC_LSHIFT = 225"
  by (simp add: KC_LSHIFT_def)

lemmas modifier_defs =
  KC_LCTRL_def KC_LSHIFT_def KC_LALT_def KC_LGUI_def
  KC_RCTRL_def KC_RSHIFT_def KC_RALT_def KC_RGUI_def

lemmas mouse_defs =
  LCLK_def RCLK_def MCLK_def MOVE_UP_def MOVE_DOWN_def MOVE_LEFT_def MOVE_RIGHT_def
  SCROLL_UP_def SCROLL_DOWN_def SCROLL_LEFT_def SCROLL_RIGHT_def

lemmas hold_tap_defs =
  HOLD_TAP_FLAVOR_HOLD_PREFERRED_def HOLD_TAP_FLAVOR_BALANCED_def
  HOLD_TAP_FLAVOR_TAP_PREFERRED_def HOLD_TAP_FLAVOR_TAP_UNLESS_INTERRUPTED_def

lemmas layer_defs = DEFAULT_LAYER_def MOMENTARY_LAYER_def TOGGLE_LAYER_def

lemma mouse_codes_values: "mouse_codes = [1, 2, 3, 4, 5, 6, 7, 8, 9, 10, 11]"
  by (simp add: mouse_codes_def mouse_defs)

lemma modifier_codes_values: "modifier_codes = [224, 225, 226, 227, 228, 229, 230, 231]"
  by (simp add: modifier_codes_def modifier_defs)

text \<open>
  Claim C6. The letter-key constant \<open>KC_A\<close> equals 4 and \<open>MOMENTARY_LAYER\<close> equals 1;
  every mouse code lies in [0x01, 0x0B] and every modifier code in [0xE0, 0xE7]; the four
  hold-tap flavors are exactly 0, 1, 2, 3 and the three layer behavior types exactly
  0, 1, 2.
\<close>

theorem constant_tables:
  "KC_A = 4 \<and> MOMENTARY_LAYER = 1 \<and>
   list_all (\<lambda>c. 0x01 \<le> c \<and> c \<le> 0x0B) mouse_codes \<and>
   list_all (\<lambda>c. 0xE0 \<le> c \<and> c \<le> 0xE7) modifier_codes \<and>
   hold_tap_flavors = [0, 1, 2, 3] \<and>
   layer_behavior_types = [0, 1, 2]"
proof -
  have "list_all (\<lambda>c. 0x01 \<le> c \<and> c \<le> 0x0B) mouse_codes"
    by (simp add: mouse_codes_values)
  moreover have "list_all (\<lambda>c. 0xE0 \<le> c \<and> c \<le> 0xE7) modifier_codes"
    by (simp add: modifier_codes_values)
  moreover have "hold_tap_flavors = [0, 1, 2, 3]"
    by (simp add: hold_tap_flavors_def hold_tap_defs)
  moreover have "layer_behavior_types = [0, 1, 2]"
    by (simp add: layer_behavior_types_def layer_defs)
  ultimately show ?thesis
    by (simp add: KC_A_def MOMENTARY_LAYER_def)
qed

section \<open>Examples and further facts about the codec\<close>

text \<open>
  Claim C7. The example values of the specification: \<open>RC 0 0\<close> is 0, \<open>RC 1 0\<close> is 256,
  \<open>RC 0 255\<close> is 255 and \<open>RC 2 3\<close> is 515.
\<close>

theorem RC_examples:
  "RC (0 :: nat) 0 = 0 \<and> RC (1 :: nat) 0 = 256 \<and> RC (0 :: nat) 255 = 255 \<and>
   RC (2 :: nat) 3 = 515"
  by (simp add: RC_def)

text \<open>
  Claim C9. For every non-negative integer, produced by \<open>RC\<close> or not, the decoded
  column \<open>GET_COL packed\<close> lies in [0, 255].
\<close>

theorem GET_COL_le_255: "0 \<le> GET_COL packed \<and> GET_COL packed \<le> (255 :: nat)"
proof -
  have "packed mod 256 < 256"
    by simp
  then show ?thesis
    by (simp add: GET_COL_take_bit take_bit_eq_mod)
qed

section \<open>The macros at 32 bits\<close>

text \<open>
  Expanded on 32-bit unsigned values, the macros round-trip every row and column in
  [0,255].
\<close>

lemma take_bit_8_word_small:
  assumes "col \<le> 255"
  shows "take_bit 8 (col :: 32 word) = col"
proof -
  have "col < 2 ^ 8"
    using assms by (rule le_less_trans) simp
  then show ?thesis
    by (simp add: take_bit_eq_mask less_mask_eq)
qed

lemma drop_bit_8_word_small:
  assumes "col \<le> 255"
  shows "drop_bit 8 (col :: 32 word) = 0"
proof -
  have "drop_bit 8 (take_bit 8 col) = 0"
    by (simp add: bit_eq_iff bit_simps)
  then show ?thesis
    using assms by (simp add: take_bit_8_word_small)
qed

lemma RC_round_trip_32:
  fixes row col :: "32 word"
  assumes "row \<le> 255" and "col \<le> 255"
  shows "GET_ROW (RC row col) = row \<and> GET_COL (RC row col) = col"
proof -
  have "row < 2 ^ 24"
    using assms(1) by (rule le_less_trans) simp
  then have "take_bit 24 row = row"
    by (simp add: take_bit_eq_mask less_mask_eq)
  then have "drop_bit 8 (push_bit 8 row) = row"
    using GET_ROW_MATRIX_ROW_word [of row] by (simp add: GET_ROW_def MATRIX_ROW_def)
  then have "GET_ROW (RC row col) = row"
    using assms(2) by (simp add: RC_def GET_ROW_def drop_bit_or drop_bit_8_word_small)
  moreover have "GET_COL (RC row col) = col"
    using assms(2) by (simp add: GET_COL_RC take_bit_8_word_small)
  ultimately show ?thesis
    by simp
qed

section \<open>The auxiliary macros\<close>




end
